theory Spec2Isabelle
  imports Complex_Main "HOL-Library.AList"
begin

section \<open>Laboratory management system: data model\<close>

text \<open>
  The repository holds two parallel implementations of the same domain model:
  the split variant (\<^verbatim>\<open>models.py\<close>, \<^verbatim>\<open>managers.py\<close>, \<^verbatim>\<open>laboratory_system.py\<close>,
  \<^verbatim>\<open>calculators.py\<close>) and the monolithic script \<^verbatim>\<open>Laboratorio Quimico.py\<close>.
  Functions of the split variant carry the suffix \<open>_split\<close>, functions of the
  monolithic script the suffix \<open>_mono\<close>; a function that exists in one variant only
  keeps its plain name.

  Conventions of the embedding:
  \<^item> a Python \<^verbatim>\<open>float\<close> is a \<open>real\<close> (rounding is not modelled);
  \<^item> a calendar date is the number of its day (\<open>int\<close>); the strings produced by
    \<^verbatim>\<open>strftime("%Y-%m-%d")\<close> and parsed by \<^verbatim>\<open>strptime\<close> are in bijection with
    the dates, so a validated date string is modelled by its date;
  \<^item> \<^verbatim>\<open>datetime.now()\<close> is a parameter \<open>now\<close>: a day and the microseconds elapsed
    since midnight of that day; the clock reads made during one call are all taken at
    that one instant;
  \<^item> a Python \<^verbatim>\<open>dict\<close> is an association list in insertion order, read with
    \<open>map_of\<close> and written with \<open>AList.update\<close> (an existing key keeps its place,
    a new key goes to the end);
  \<^item> an object held in a dict and mutated in place is written back under its key;
  \<^item> a raised exception is a value of \<open>pyerror\<close>.
\<close>

type_synonym date = int

record datetime =
  dt_date :: date
  dt_micro :: nat

definition midnight :: "date \<Rightarrow> datetime" where
  "midnight d = \<lparr>dt_date = d, dt_micro = 0\<rparr>"

definition dt_greater :: "datetime \<Rightarrow> datetime \<Rightarrow> bool" where
  "dt_greater a b \<longleftrightarrow>
     dt_date a > dt_date b \<or> (dt_date a = dt_date b \<and> dt_micro a > dt_micro b)"

datatype pyerror = ValueError | ZeroDivisionError | AttributeError | KeyError | TypeError

record transaction =
  t_date :: date
  amount :: real
  old_level :: "real option"
  new_level :: real
  reason :: string

datatype order_id = ORD_seq nat | ORD_stamp date nat

record order =
  order_id :: order_id
  reagent_name :: string
  quantity :: real
  supplier_name :: string
  order_date :: date
  status :: string
  expected_delivery :: "date option"
  received_date :: "date option"

text \<open>
  One record serves the \<^verbatim>\<open>Reagent\<close> class of both variants. The split variant keeps
  \<^verbatim>\<open>expiry_date\<close> as the \<^verbatim>\<open>datetime\<close> at midnight of the date and has no
  \<^verbatim>\<open>orders\<close>; the monolithic script keeps the validated date string. A transaction
  of the monolithic script has the extra key \<^verbatim>\<open>old_level\<close>.
\<close>

record reagent =
  name :: string
  description :: string
  cost :: real
  category :: string
  inventory :: real
  unit :: string
  min_threshold :: real
  expiry_date :: "date option"
  location :: string
  safety_info :: "(string \<times> string) list"
  purchase_history :: "transaction list"
  usage_history :: "transaction list"
  orders :: "order list"

section \<open>Reagent\<close>

subsection \<open>\<^verbatim>\<open>Reagent.update_inventory\<close>\<close>

text \<open>\<^verbatim>\<open>models.py\<close>: the update is refused when the new level would be negative.\<close>

definition update_inventory_split ::
  "datetime \<Rightarrow> reagent \<Rightarrow> real \<Rightarrow> string \<Rightarrow> bool \<times> reagent" where
  "update_inventory_split now r amt rsn =
     (let new_inventory = inventory r + amt in
      if new_inventory < 0 then (False, r)
      else
        let r1 = r\<lparr>inventory := new_inventory\<rparr>;
            tr = \<lparr>t_date = dt_date now, amount = amt, old_level = None,
                  new_level = new_inventory, reason = rsn\<rparr>
        in if amt > 0 then (True, r1\<lparr>purchase_history := purchase_history r1 @ [tr]\<rparr>)
           else (True, r1\<lparr>usage_history := usage_history r1 @ [tr]\<rparr>))"

text \<open>\<^verbatim>\<open>Laboratorio Quimico.py\<close>: no check, no return value.\<close>

definition update_inventory_mono :: "datetime \<Rightarrow> reagent \<Rightarrow> real \<Rightarrow> string \<Rightarrow> reagent" where
  "update_inventory_mono now r amt rsn =
     (let old_inventory = inventory r;
          r1 = r\<lparr>inventory := inventory r + amt\<rparr>;
          tr = \<lparr>t_date = dt_date now, amount = amt, old_level = Some old_inventory,
                new_level = inventory r1, reason = rsn\<rparr>
      in if amt > 0 then r1\<lparr>purchase_history := purchase_history r1 @ [tr]\<rparr>
         else r1\<lparr>usage_history := usage_history r1 @ [tr]\<rparr>)"

text \<open>A sequence of calls on one reagent of the split variant, each with its own clock.\<close>

fun update_inventory_calls :: "reagent \<Rightarrow> (datetime \<times> real \<times> string) list \<Rightarrow> reagent" where
  "update_inventory_calls r [] = r"
| "update_inventory_calls r ((now, amt, rsn) # cs) =
     update_inventory_calls (snd (update_inventory_split now r amt rsn)) cs"

subsection \<open>\<^verbatim>\<open>Reagent.is_expired\<close>\<close>

text \<open>
  \<^verbatim>\<open>models.py\<close>: \<^verbatim>\<open>datetime.now() > self.expiry_date\<close>, a comparison of
  instants; \<^verbatim>\<open>Laboratorio Quimico.py\<close>: \<^verbatim>\<open>today >= expiry\<close>, a comparison of dates.
\<close>

definition is_expired_split :: "datetime \<Rightarrow> reagent \<Rightarrow> bool" where
  "is_expired_split now r =
     (case expiry_date r of None \<Rightarrow> False | Some d \<Rightarrow> dt_greater now (midnight d))"

definition is_expired_mono :: "datetime \<Rightarrow> reagent \<Rightarrow> bool" where
  "is_expired_mono now r =
     (case expiry_date r of None \<Rightarrow> False | Some d \<Rightarrow> dt_date now \<ge> d)"

definition is_low_stock :: "reagent \<Rightarrow> bool" where
  "is_low_stock r \<longleftrightarrow> inventory r \<le> min_threshold r"

section \<open>Validator\<close>

text \<open>
  The only \<^verbatim>\<open>Validator\<close> class of the repository is the one of
  \<^verbatim>\<open>Laboratorio Quimico.py\<close>; \<^verbatim>\<open>models.py\<close> imports the name and calls the same
  three functions (\<^verbatim>\<open>models.py\<close> imports it from \<^verbatim>\<open>laboratory_system\<close>, which
  does not define it; the split variant is modelled function by function, as written,
  with this \<^verbatim>\<open>Validator\<close>). The arguments are typed, so the \<^verbatim>\<open>isinstance\<close> test
  and the failure of \<^verbatim>\<open>float(value)\<close> have no counterpart; a date string is
  modelled by its date, so \<^verbatim>\<open>validate_date_format\<close> has no failing case.
  \<open>is_space\<close> lists the ASCII characters that \<^verbatim>\<open>str.strip()\<close> removes.
\<close>

definition bind_err :: "'e + 'a \<Rightarrow> ('a \<Rightarrow> 'e + 'b) \<Rightarrow> 'e + 'b" where
  "bind_err m f = (case m of Inl e \<Rightarrow> Inl e | Inr x \<Rightarrow> f x)"

definition is_space :: "char \<Rightarrow> bool" where
  "is_space c \<longleftrightarrow> c \<in> set [CHR 0x09, CHR 0x0A, CHR 0x0B, CHR 0x0C, CHR 0x0D,
                           CHR 0x1C, CHR 0x1D, CHR 0x1E, CHR 0x1F, CHR 0x20]"

definition strip :: "string \<Rightarrow> string" where
  "strip s = rev (dropWhile is_space (rev (dropWhile is_space s)))"

definition validate_string :: "string \<Rightarrow> pyerror + string" where
  "validate_string v = (if strip v = [] then Inl ValueError else Inr (strip v))"

definition validate_positive_number :: "real \<Rightarrow> pyerror + real" where
  "validate_positive_number v = (if v \<le> 0 then Inl ValueError else Inr v)"

definition validate_date_format :: "date option \<Rightarrow> pyerror + date option" where
  "validate_date_format d = Inr d"

section \<open>Reagent: construction and snapshot\<close>

definition almacen_general :: string where
  "almacen_general = ''Almac'' @ [CHR 0xC3, CHR 0xA9] @ ''n general''"

text \<open>
  \<^verbatim>\<open>Reagent.__init__\<close> of \<^verbatim>\<open>Laboratorio Quimico.py\<close> stores what the validators
  return (the trimmed strings).
\<close>

definition Reagent_mono ::
  "string \<Rightarrow> string \<Rightarrow> real \<Rightarrow> string \<Rightarrow> real \<Rightarrow> string \<Rightarrow> real \<Rightarrow> date option \<Rightarrow> string
     \<Rightarrow> (string \<times> string) list \<Rightarrow> pyerror + reagent" where
  "Reagent_mono nm ds c cat ivt u thr ed loc si =
     bind_err (validate_string nm) (\<lambda>nm'.
     bind_err (validate_string ds) (\<lambda>ds'.
     bind_err (validate_positive_number c) (\<lambda>c'.
     bind_err (validate_string cat) (\<lambda>cat'.
     bind_err (validate_positive_number ivt) (\<lambda>ivt'.
     bind_err (validate_string u) (\<lambda>u'.
     bind_err (validate_positive_number thr) (\<lambda>thr'.
     bind_err (validate_date_format ed) (\<lambda>ed'.
     bind_err (validate_string loc) (\<lambda>loc'.
       Inr \<lparr>name = nm', description = ds', cost = c', category = cat', inventory = ivt',
            unit = u', min_threshold = thr', expiry_date = ed', location = loc',
            safety_info = si, purchase_history = [], usage_history = [],
            orders = []\<rparr>)))))))))"

text \<open>
  \<^verbatim>\<open>Reagent.__init__\<close> of \<^verbatim>\<open>models.py\<close> calls the validators for their exceptions
  only and stores the arguments as given; \<^verbatim>\<open>location or <default>\<close> (the default is \<open>almacen_general\<close>) replaces
  \<^verbatim>\<open>None\<close> and the empty string.
\<close>

definition Reagent_split ::
  "string \<Rightarrow> string \<Rightarrow> real \<Rightarrow> string \<Rightarrow> real \<Rightarrow> string \<Rightarrow> real \<Rightarrow> date option
     \<Rightarrow> string option \<Rightarrow> (string \<times> string) list \<Rightarrow> pyerror + reagent" where
  "Reagent_split nm ds c cat ivt u thr ed loc si =
     bind_err (validate_string nm) (\<lambda>_.
     bind_err (validate_string ds) (\<lambda>_.
     bind_err (validate_positive_number c) (\<lambda>_.
     bind_err (validate_string cat) (\<lambda>_.
     bind_err (validate_positive_number ivt) (\<lambda>_.
     bind_err (validate_string u) (\<lambda>_.
     bind_err (validate_positive_number thr) (\<lambda>_.
     bind_err (case ed of None \<Rightarrow> Inr None | Some d \<Rightarrow> validate_date_format (Some d)) (\<lambda>_.
       Inr \<lparr>name = nm, description = ds, cost = c, category = cat, inventory = ivt,
            unit = u, min_threshold = thr, expiry_date = ed,
            location = (case loc of None \<Rightarrow> almacen_general
                        | Some l \<Rightarrow> if l = [] then almacen_general else l),
            safety_info = si, purchase_history = [], usage_history = [],
            orders = []\<rparr>))))))))"

text \<open>
  The dictionary written by \<^verbatim>\<open>to_dict\<close>, one field per key. The split variant
  writes no \<^verbatim>\<open>orders\<close> key (\<open>None\<close>).
\<close>

record reagent_dict =
  d_name :: string
  d_description :: string
  d_cost :: real
  d_category :: string
  d_inventory :: real
  d_unit :: string
  d_min_threshold :: real
  d_expiry_date :: "date option"
  d_location :: string
  d_safety_info :: "(string \<times> string) list"
  d_purchase_history :: "transaction list"
  d_usage_history :: "transaction list"
  d_orders :: "order list option"

definition to_dict_mono :: "reagent \<Rightarrow> reagent_dict" where
  "to_dict_mono r =
     \<lparr>d_name = name r, d_description = description r, d_cost = cost r,
      d_category = category r, d_inventory = inventory r, d_unit = unit r,
      d_min_threshold = min_threshold r, d_expiry_date = expiry_date r,
      d_location = location r, d_safety_info = safety_info r,
      d_purchase_history = purchase_history r, d_usage_history = usage_history r,
      d_orders = Some (orders r)\<rparr>"

definition from_dict_mono :: "reagent_dict \<Rightarrow> pyerror + reagent" where
  "from_dict_mono data =
     bind_err (Reagent_mono (d_name data) (d_description data) (d_cost data) (d_category data)
                 (d_inventory data) (d_unit data) (d_min_threshold data) (d_expiry_date data)
                 (d_location data) (d_safety_info data))
       (\<lambda>r. Inr (r\<lparr>purchase_history := d_purchase_history data,
                    usage_history := d_usage_history data,
                    orders := (case d_orders data of None \<Rightarrow> [] | Some os \<Rightarrow> os)\<rparr>))"

definition to_dict_split :: "reagent \<Rightarrow> reagent_dict" where
  "to_dict_split r =
     \<lparr>d_name = name r, d_description = description r, d_cost = cost r,
      d_category = category r, d_inventory = inventory r, d_unit = unit r,
      d_min_threshold = min_threshold r, d_expiry_date = expiry_date r,
      d_location = location r, d_safety_info = safety_info r,
      d_purchase_history = purchase_history r, d_usage_history = usage_history r,
      d_orders = None\<rparr>"

definition from_dict_split :: "reagent_dict \<Rightarrow> pyerror + reagent" where
  "from_dict_split data =
     bind_err (Reagent_split (d_name data) (d_description data) (d_cost data) (d_category data)
                 (d_inventory data) (d_unit data) (d_min_threshold data) (d_expiry_date data)
                 (Some (d_location data)) (d_safety_info data))
       (\<lambda>r. Inr (r\<lparr>purchase_history := d_purchase_history data,
                    usage_history := d_usage_history data\<rparr>))"

section \<open>Recipe\<close>

text \<open>
  An expected range is a two-element tuple in a constructed recipe and a two-element
  list after \<^verbatim>\<open>json.load\<close>; the two are different Python values, and
  \<^verbatim>\<open>Experiment.record_result\<close> of the monolithic script tells them apart.
\<close>

datatype range = Range_tuple real real | Range_list real real

fun bounds :: "range \<Rightarrow> real \<times> real" where
  "bounds (Range_tuple a b) = (a, b)"
| "bounds (Range_list a b) = (a, b)"

record recipe =
  recipe_name :: string
  objective :: string
  recipe_reagents :: "(string \<times> real) list"
  procedure :: "string list"
  expected_results :: "(string \<times> range) list"

text \<open>The loop of \<^verbatim>\<open>Recipe.__init__\<close> (\<^verbatim>\<open>models.py\<close>) over the expected ranges.\<close>

fun invalid_range :: "(string \<times> range) list \<Rightarrow> bool" where
  "invalid_range [] = False"
| "invalid_range ((m, rg) # rest) =
     (if fst (bounds rg) > snd (bounds rg) then True else invalid_range rest)"

definition Recipe_split ::
  "string \<Rightarrow> string \<Rightarrow> (string \<times> real) list \<Rightarrow> string list \<Rightarrow> (string \<times> range) list
     \<Rightarrow> pyerror + recipe" where
  "Recipe_split nm obj rs pr er =
     bind_err (validate_string nm) (\<lambda>_.
     bind_err (validate_string obj) (\<lambda>_.
       if rs = [] then Inl ValueError
       else if pr = [] then Inl ValueError
       else if invalid_range er then Inl ValueError
       else Inr \<lparr>recipe_name = nm, objective = obj, recipe_reagents = rs, procedure = pr,
                 expected_results = er\<rparr>))"

definition Recipe_mono ::
  "string \<Rightarrow> string \<Rightarrow> (string \<times> real) list \<Rightarrow> (string \<times> range) list \<Rightarrow> string list
     \<Rightarrow> pyerror + recipe" where
  "Recipe_mono nm obj rs er pr =
     bind_err (validate_string nm) (\<lambda>nm'.
     bind_err (validate_string obj) (\<lambda>obj'.
       if rs = [] then Inl ValueError
       else if er = [] then Inl ValueError
       else Inr \<lparr>recipe_name = nm', objective = obj', recipe_reagents = rs, procedure = pr,
                 expected_results = er\<rparr>))"

record recipe_dict =
  rd_name :: string
  rd_objective :: string
  rd_reagents :: "(string \<times> real) list"
  rd_expected_results :: "(string \<times> range) list"
  rd_procedure :: "string list"

fun tuple_to_list :: "range \<Rightarrow> range" where
  "tuple_to_list (Range_tuple a b) = Range_list a b"
| "tuple_to_list (Range_list a b) = Range_list a b"

fun list_to_tuple :: "range \<Rightarrow> range" where
  "list_to_tuple (Range_list a b) = Range_tuple a b"
| "list_to_tuple (Range_tuple a b) = Range_tuple a b"

definition recipe_to_dict_mono :: "recipe \<Rightarrow> recipe_dict" where
  "recipe_to_dict_mono r =
     \<lparr>rd_name = recipe_name r, rd_objective = objective r, rd_reagents = recipe_reagents r,
      rd_expected_results = map (\<lambda>(k, v). (k, tuple_to_list v)) (expected_results r),
      rd_procedure = procedure r\<rparr>"

definition recipe_from_dict_mono :: "recipe_dict \<Rightarrow> pyerror + recipe" where
  "recipe_from_dict_mono data =
     Recipe_mono (rd_name data) (rd_objective data) (rd_reagents data)
       (map (\<lambda>(k, v). (k, list_to_tuple v)) (rd_expected_results data)) (rd_procedure data)"

section \<open>Experiment\<close>

text \<open>
  One record serves both \<^verbatim>\<open>Experiment\<close> classes. Only the monolithic script has the
  attribute \<^verbatim>\<open>notes\<close>; only the split variant stores \<^verbatim>\<open>value\<close>,
  \<^verbatim>\<open>deviation\<close> and \<^verbatim>\<open>raw_data\<close> in a validation.
\<close>

record validation =
  v_value :: "real option"
  is_valid :: bool
  deviation :: "real option"
  raw_data :: "(string \<times> real) list"
  expected_range :: "range option"

record lab_experiment =
  recipe :: "recipe"
  date :: "datetime"
  responsible_people :: "string list"
  results :: "(string \<times> real) list"
  measurement_validations :: "(string \<times> validation) list"
  success :: bool
  experiment_cost :: real
  experiment_notes :: string

definition Experiment_split ::
  "datetime \<Rightarrow> recipe \<Rightarrow> string list \<Rightarrow> date option \<Rightarrow> pyerror + lab_experiment" where
  "Experiment_split now rc people d =
     (if people = [] then Inl ValueError
      else Inr \<lparr>recipe = rc,
                date = (case d of None \<Rightarrow> now | Some d' \<Rightarrow> midnight d'),
                responsible_people = people, results = [], measurement_validations = [],
                success = False, experiment_cost = 0, experiment_notes = []\<rparr>)"

definition Experiment_mono :: "datetime \<Rightarrow> recipe \<Rightarrow> string list \<Rightarrow> lab_experiment" where
  "Experiment_mono now rc people =
     \<lparr>recipe = rc, date = now, responsible_people = people, results = [],
      measurement_validations = [], success = False, experiment_cost = 0, experiment_notes = []\<rparr>"

subsection \<open>\<^verbatim>\<open>ResultCalculator.evaluate_measurement\<close> and \<^verbatim>\<open>Experiment.record_result\<close>\<close>

text \<open>
  Both functions of the split variant divide by \<^verbatim>\<open>target\<close> with no test; Python
  raises \<^verbatim>\<open>ZeroDivisionError\<close> when \<^verbatim>\<open>target\<close> is zero.
\<close>

definition evaluate_measurement :: "real \<Rightarrow> real \<Rightarrow> real \<Rightarrow> pyerror + bool \<times> real" where
  "evaluate_measurement v min_val max_val =
     (let ok = (min_val \<le> v \<and> v \<le> max_val);
          target = (min_val + max_val) / 2
      in if target = 0 then Inl ZeroDivisionError
         else Inr (ok, ((v - target) / target) * 100))"

text \<open>
  \<^verbatim>\<open>record_result\<close> of \<^verbatim>\<open>models.py\<close>. The value is stored in \<^verbatim>\<open>results\<close> before
  anything else, so it is there also when the division raises.
\<close>

definition record_result_split ::
  "lab_experiment \<Rightarrow> string \<Rightarrow> real \<Rightarrow> (string \<times> real) list \<Rightarrow> (pyerror + bool) \<times> lab_experiment" where
  "record_result_split e m v raw =
     (let e1 = e\<lparr>results := AList.update m v (results e)\<rparr> in
      case map_of (expected_results (recipe e)) m of
        None \<Rightarrow> (Inr True, e1)
      | Some rg \<Rightarrow>
          let (min_val, max_val) = bounds rg;
              ok = (min_val \<le> v \<and> v \<le> max_val);
              target = (min_val + max_val) / 2
          in if target = 0 then (Inl ZeroDivisionError, e1)
             else
               let dev = ((v - target) / target) * 100 in
               (Inr ok,
                e1\<lparr>measurement_validations :=
                     AList.update m
                       \<lparr>v_value = Some v, is_valid = ok, deviation = Some dev, raw_data = raw,
                        expected_range = Some (Range_tuple min_val max_val)\<rparr>
                       (measurement_validations e1)\<rparr>))"

text \<open>
  \<^verbatim>\<open>record_result\<close> of \<^verbatim>\<open>Laboratorio Quimico.py\<close>: only a range that is a tuple is
  checked (\<^verbatim>\<open>isinstance(expected, tuple)\<close>); no deviation is computed.
\<close>

definition record_result_mono :: "lab_experiment \<Rightarrow> string \<Rightarrow> real \<Rightarrow> bool \<times> lab_experiment" where
  "record_result_mono e m v =
     (let e1 = e\<lparr>results := AList.update m v (results e)\<rparr>;
          (ok, rg) = (case map_of (expected_results (recipe e)) m of
                        Some (Range_tuple min_val max_val) \<Rightarrow>
                          (min_val \<le> v \<and> v \<le> max_val, Some (Range_tuple min_val max_val))
                      | _ \<Rightarrow> (True, None))
      in (ok, e1\<lparr>measurement_validations :=
                   AList.update m
                     \<lparr>v_value = None, is_valid = ok, deviation = None, raw_data = [],
                      expected_range = rg\<rparr>
                     (measurement_validations e1)\<rparr>))"

subsection \<open>\<^verbatim>\<open>Experiment.validate_results\<close>\<close>

text \<open>\<^verbatim>\<open>models.py\<close>: the loop runs over the recorded results.\<close>

fun results_in_range :: "(string \<times> range) list \<Rightarrow> (string \<times> real) list \<Rightarrow> bool" where
  "results_in_range er [] = True"
| "results_in_range er ((m, v) # rest) =
     (case map_of er m of
        None \<Rightarrow> results_in_range er rest
      | Some rg \<Rightarrow>
          (let (min_val, max_val) = bounds rg in
           if \<not> (min_val \<le> v \<and> v \<le> max_val) then False else results_in_range er rest))"

definition validate_results_split :: "lab_experiment \<Rightarrow> bool" where
  "validate_results_split e =
     (if results e = [] \<or> expected_results (recipe e) = [] then False
      else results_in_range (expected_results (recipe e)) (results e))"

text \<open>
  \<^verbatim>\<open>Laboratorio Quimico.py\<close>: the loop runs over the measurements the recipe declares;
  \<^verbatim>\<open>validation.get("is_valid", False)\<close> of a missing validation is \<^verbatim>\<open>False\<close>.
\<close>

fun declared_valid ::
  "(string \<times> real) list \<Rightarrow> (string \<times> validation) list \<Rightarrow> (string \<times> range) list \<Rightarrow> bool" where
  "declared_valid rs vs [] = True"
| "declared_valid rs vs ((m, rg) # rest) =
     (if map_of rs m = None then False
      else if \<not> (case map_of vs m of None \<Rightarrow> False | Some vd \<Rightarrow> is_valid vd) then False
      else declared_valid rs vs rest)"

definition validate_results_mono :: "lab_experiment \<Rightarrow> bool" where
  "validate_results_mono e =
     declared_valid (results e) (measurement_validations e) (expected_results (recipe e))"

section \<open>InventoryManager (\<^verbatim>\<open>managers.py\<close>)\<close>

record supplier =
  s_name :: string
  contact_info :: string
  s_reagents :: "string list"

record inventory_manager =
  reagents :: "(string \<times> reagent) list"
  suppliers :: "(string \<times> supplier) list"
  order_history :: "order list"
  categories :: "string set"
  locations :: "string set"

definition InventoryManager :: inventory_manager where
  "InventoryManager =
     \<lparr>reagents = [], suppliers = [], order_history = [], categories = {}, locations = {}\<rparr>"

definition add_reagent_split :: "inventory_manager \<Rightarrow> reagent \<Rightarrow> inventory_manager" where
  "add_reagent_split im r =
     im\<lparr>reagents := AList.update (name r) r (reagents im),
        categories := insert (category r) (categories im),
        locations := insert (location r) (locations im)\<rparr>"

text \<open>
  \<^verbatim>\<open>update_stock\<close> calls \<^verbatim>\<open>reagent.update_inventory(amount, reason)\<close> as a statement
  and then returns \<^verbatim>\<open>True\<close>. A \<^verbatim>\<open>Reagent\<close> object is always truthy, so
  \<^verbatim>\<open>not reagent\<close> holds for a missing key only.
\<close>

definition update_stock ::
  "datetime \<Rightarrow> inventory_manager \<Rightarrow> string \<Rightarrow> real \<Rightarrow> string \<Rightarrow> bool \<times> inventory_manager" where
  "update_stock now im n amt rsn =
     (case map_of (reagents im) n of
        None \<Rightarrow> (False, im)
      | Some r \<Rightarrow>
          (let (ok, r') = update_inventory_split now r amt rsn
           in (True, im\<lparr>reagents := AList.update n r' (reagents im)\<rparr>)))"

text \<open>
  \<^verbatim>\<open>place_order\<close> of \<^verbatim>\<open>managers.py\<close>. The identifier \<^verbatim>\<open>ORD-<n>\<close> is \<open>ORD_seq n\<close>;
  the identifier \<^verbatim>\<open>ORD-<YYYYmmddHHMMSS>\<close> of the monolithic script is
  \<open>ORD_stamp d s\<close> with the day \<open>d\<close> and the second \<open>s\<close> of the day.
\<close>

definition place_order_split ::
  "datetime \<Rightarrow> inventory_manager \<Rightarrow> string \<Rightarrow> real \<Rightarrow> string \<Rightarrow> order \<times> inventory_manager" where
  "place_order_split now im rn q sn =
     (let ord = \<lparr>order_id = ORD_seq (length (order_history im) + 1), reagent_name = rn,
                  quantity = q, supplier_name = sn, order_date = dt_date now,
                  status = ''pending'', expected_delivery = None, received_date = None\<rparr>
      in (ord, im\<lparr>order_history := order_history im @ [ord]\<rparr>))"

section \<open>ResultManager (\<^verbatim>\<open>managers.py\<close>)\<close>

text \<open>
  \<^verbatim>\<open>add_result\<close> reads attributes of the experiment by name. \<open>getattr_Experiment_split\<close>
  is the attribute table of an instance of the \<^verbatim>\<open>Experiment\<close> class of
  \<^verbatim>\<open>models.py\<close>: the seven attributes set by \<^verbatim>\<open>__init__\<close> and the methods of the
  class (the names inherited from \<^verbatim>\<open>object\<close>, all of the form \<^verbatim>\<open>__x__\<close>, are left
  out). Any other name raises \<^verbatim>\<open>AttributeError\<close>. \<open>call0\<close> calls an attribute
  value with no argument.
\<close>

datatype pyval =
    V_recipe recipe
  | V_datetime datetime
  | V_strs "string list"
  | V_results "(string \<times> real) list"
  | V_validations "(string \<times> validation) list"
  | V_bool bool
  | V_float real
  | V_method string
  | V_to_dict lab_experiment

definition getattr_Experiment_split :: "lab_experiment \<Rightarrow> string \<Rightarrow> pyerror + pyval" where
  "getattr_Experiment_split e a =
     (if a = ''recipe'' then Inr (V_recipe (recipe e))
      else if a = ''responsible_people'' then Inr (V_strs (responsible_people e))
      else if a = ''date'' then Inr (V_datetime (date e))
      else if a = ''results'' then Inr (V_results (results e))
      else if a = ''success'' then Inr (V_bool (success e))
      else if a = ''cost'' then Inr (V_float (experiment_cost e))
      else if a = ''measurement_validations'' then Inr (V_validations (measurement_validations e))
      else if a \<in> set [''__init__'', ''record_result'', ''validate_results'', ''to_dict'',
                        ''from_dict''] then Inr (V_method a)
      else Inl AttributeError)"

definition call0 :: "lab_experiment \<Rightarrow> pyval \<Rightarrow> pyerror + pyval" where
  "call0 e f =
     (case f of
        V_method m \<Rightarrow>
          (if m = ''validate_results'' then Inr (V_bool (validate_results_split e))
           else if m = ''to_dict'' then Inr (V_to_dict e)
           else Inl TypeError)
      | _ \<Rightarrow> Inl TypeError)"

record result_entry =
  fecha :: "datetime"
  receta :: string
  responsables :: "string list"
  mediciones :: "(string \<times> real) list"
  validaciones :: pyval
  desviaciones :: pyval
  exito :: pyval
  notas :: string
  costo :: real

record result_manager =
  results_history :: "result_entry list"

definition add_result ::
  "result_manager \<Rightarrow> lab_experiment \<Rightarrow> string \<Rightarrow> (pyerror + result_entry) \<times> result_manager" where
  "add_result rm e nts =
     (case bind_err (getattr_Experiment_split e ''get_detailed_results'') (call0 e) of
        Inl err \<Rightarrow> (Inl err, rm)
      | Inr detailed_results \<Rightarrow>
     (case getattr_Experiment_split e ''validations'' of
        Inl err \<Rightarrow> (Inl err, rm)
      | Inr vals \<Rightarrow>
     (case getattr_Experiment_split e ''deviations'' of
        Inl err \<Rightarrow> (Inl err, rm)
      | Inr devs \<Rightarrow>
     (case bind_err (getattr_Experiment_split e ''is_successful'') (call0 e) of
        Inl err \<Rightarrow> (Inl err, rm)
      | Inr ok \<Rightarrow>
          (let res = \<lparr>fecha = date e, receta = recipe_name (recipe e),
                      responsables = responsible_people e, mediciones = results e,
                      validaciones = vals, desviaciones = devs, exito = ok, notas = nts,
                      costo = 0\<rparr>
           in (Inr res, rm\<lparr>results_history := results_history rm @ [res]\<rparr>))))))"

section \<open>LaboratorySystem of the split variant (\<^verbatim>\<open>laboratory_system.py\<close>)\<close>

record laboratory_system =
  inventory_manager :: "inventory_manager"
  result_manager :: "result_manager"
  recipes :: "(string \<times> recipe) list"

text \<open>The availability loop: \<open>False\<close> where the source returns \<^verbatim>\<open>None\<close>.\<close>

fun reagents_available_split :: "(string \<times> reagent) list \<Rightarrow> (string \<times> real) list \<Rightarrow> bool" where
  "reagents_available_split rs [] = True"
| "reagents_available_split rs ((n, a) # rest) =
     (case map_of rs n of
        None \<Rightarrow> False
      | Some r \<Rightarrow> if inventory r < a then False else reagents_available_split rs rest)"

fun record_all_split :: "lab_experiment \<Rightarrow> (string \<times> real) list \<Rightarrow> pyerror + lab_experiment" where
  "record_all_split e [] = Inr e"
| "record_all_split e ((m, v) # rest) =
     (case record_result_split e m v [] of
        (Inl err, e') \<Rightarrow> Inl err
      | (Inr ok, e') \<Rightarrow> record_all_split e' rest)"

fun debit_split ::
  "datetime \<Rightarrow> string \<Rightarrow> inventory_manager \<Rightarrow> (string \<times> real) list \<Rightarrow> inventory_manager" where
  "debit_split now rn im [] = im"
| "debit_split now rn im ((n, a) # rest) =
     debit_split now rn (snd (update_stock now im n (- a) (''Usado en experimento: '' @ rn))) rest"

text \<open>
  \<^verbatim>\<open>perform_experiment\<close>. The result is \<open>Inr None\<close> where the source returns
  \<^verbatim>\<open>None\<close>. The call of \<^verbatim>\<open>plot_measurement_ranges\<close> between the debit and
  \<^verbatim>\<open>add_result\<close> writes an image file and touches none of the modelled state.
\<close>

definition perform_experiment_split ::
  "datetime \<Rightarrow> laboratory_system \<Rightarrow> string \<Rightarrow> string list \<Rightarrow> (string \<times> real) list \<Rightarrow> string
     \<Rightarrow> (pyerror + result_entry option) \<times> laboratory_system" where
  "perform_experiment_split now sys rn people ms nts =
     (case map_of (recipes sys) rn of
        None \<Rightarrow> (Inr None, sys)
      | Some rc \<Rightarrow>
          if \<not> reagents_available_split (reagents (inventory_manager sys)) (recipe_reagents rc)
          then (Inr None, sys)
          else
            (case Experiment_split now rc people None of
               Inl err \<Rightarrow> (Inl err, sys)
             | Inr e0 \<Rightarrow>
                 (case record_all_split e0 ms of
                    Inl err \<Rightarrow> (Inl err, sys)
                  | Inr e1 \<Rightarrow>
                      (let sys1 = sys\<lparr>inventory_manager :=
                                    debit_split now rn (inventory_manager sys) (recipe_reagents rc)\<rparr>
                       in case add_result (result_manager sys1) e1 nts of
                            (Inl err, rm) \<Rightarrow> (Inl err, sys1\<lparr>result_manager := rm\<rparr>)
                          | (Inr res, rm) \<Rightarrow> (Inr (Some res), sys1\<lparr>result_manager := rm\<rparr>)))))"

section \<open>LaboratorySystem of the monolithic script (\<^verbatim>\<open>Laboratorio Quimico.py\<close>)\<close>

record laboratory =
  lab_reagents :: "(string \<times> reagent) list"
  lab_recipes :: "(string \<times> recipe) list"
  lab_experiments :: "lab_experiment list"
  lab_suppliers :: "(string \<times> supplier) list"

text \<open>The error strings the script returns, by kind, with the name they quote.\<close>

datatype error_message =
    Recipe_not_found string
  | Reagent_not_available string
  | Insufficient_inventory string
  | Reagent_expired string
  | Reagent_not_found string
  | Supplier_not_found string

fun check_reagents_mono ::
  "datetime \<Rightarrow> (string \<times> reagent) list \<Rightarrow> (string \<times> real) list \<Rightarrow> error_message option" where
  "check_reagents_mono now rs [] = None"
| "check_reagents_mono now rs ((n, a) # rest) =
     (case map_of rs n of
        None \<Rightarrow> Some (Reagent_not_available n)
      | Some r \<Rightarrow>
          if inventory r < a then Some (Insufficient_inventory n)
          else if is_expired_mono now r then Some (Reagent_expired n)
          else check_reagents_mono now rs rest)"

fun record_all_mono :: "lab_experiment \<Rightarrow> (string \<times> real) list \<Rightarrow> lab_experiment" where
  "record_all_mono e [] = e"
| "record_all_mono e ((m, v) # rest) = record_all_mono (snd (record_result_mono e m v)) rest"

text \<open>
  The debit loop and the cost sum index \<^verbatim>\<open>self.reagents[reagent_name]\<close>; a missing
  key raises \<^verbatim>\<open>KeyError\<close> and leaves the debits made so far.
\<close>

fun debit_mono ::
  "datetime \<Rightarrow> string \<Rightarrow> (string \<times> reagent) list \<Rightarrow> (string \<times> real) list
     \<Rightarrow> pyerror option \<times> (string \<times> reagent) list" where
  "debit_mono now rn rs [] = (None, rs)"
| "debit_mono now rn rs ((n, a) # rest) =
     (case map_of rs n of
        None \<Rightarrow> (Some KeyError, rs)
      | Some r \<Rightarrow>
          debit_mono now rn
            (AList.update n (update_inventory_mono now r (- a) (''Usado en experimento: '' @ rn)) rs)
            rest)"

fun total_cost_mono :: "(string \<times> reagent) list \<Rightarrow> real \<Rightarrow> (string \<times> real) list \<Rightarrow> pyerror + real" where
  "total_cost_mono rs acc [] = Inr acc"
| "total_cost_mono rs acc ((n, a) # rest) =
     (case map_of rs n of
        None \<Rightarrow> Inl KeyError
      | Some r \<Rightarrow> total_cost_mono rs (acc + cost r * a) rest)"

definition perform_experiment_mono ::
  "datetime \<Rightarrow> laboratory \<Rightarrow> string \<Rightarrow> string list \<Rightarrow> (string \<times> real) list \<Rightarrow> string
     \<Rightarrow> (pyerror + error_message + lab_experiment) \<times> laboratory" where
  "perform_experiment_mono now lab rn people ms nts =
     (case map_of (lab_recipes lab) rn of
        None \<Rightarrow> (Inr (Inl (Recipe_not_found rn)), lab)
      | Some rc \<Rightarrow>
          (case check_reagents_mono now (lab_reagents lab) (recipe_reagents rc) of
             Some msg \<Rightarrow> (Inr (Inl msg), lab)
           | None \<Rightarrow>
               (let e0 = (Experiment_mono now rc people)\<lparr>experiment_notes := nts\<rparr>;
                    e1 = record_all_mono e0 ms;
                    e2 = e1\<lparr>success := validate_results_mono e1\<rparr>
                in case debit_mono now rn (lab_reagents lab) (recipe_reagents rc) of
                     (Some err, rs') \<Rightarrow> (Inl err, lab\<lparr>lab_reagents := rs'\<rparr>)
                   | (None, rs') \<Rightarrow>
                       (case total_cost_mono rs' 0 (recipe_reagents rc) of
                          Inl err \<Rightarrow> (Inl err, lab\<lparr>lab_reagents := rs'\<rparr>)
                        | Inr c \<Rightarrow>
                            (let e3 = e2\<lparr>experiment_cost := c\<rparr>
                             in (Inr (Inr e3),
                                 lab\<lparr>lab_reagents := rs',
                                     lab_experiments := lab_experiments lab @ [e3]\<rparr>))))))"

text \<open>
  \<^verbatim>\<open>place_order\<close> of the monolithic script. The clock reads of one call are taken at
  one instant \<open>now\<close>; \<^verbatim>\<open>timedelta(days=7)\<close> adds seven to the day.
\<close>

definition place_order_mono ::
  "datetime \<Rightarrow> laboratory \<Rightarrow> string \<Rightarrow> real \<Rightarrow> string
     \<Rightarrow> (error_message + order) \<times> laboratory" where
  "place_order_mono now lab rn q sn =
     (case map_of (lab_reagents lab) rn of
        None \<Rightarrow> (Inl (Reagent_not_found rn), lab)
      | Some r \<Rightarrow>
          if map_of (lab_suppliers lab) sn = None then (Inl (Supplier_not_found sn), lab)
          else
            (let ord = \<lparr>order_id = ORD_stamp (dt_date now) (dt_micro now div 1000000),
                        reagent_name = rn, quantity = q, supplier_name = sn,
                        order_date = dt_date now, status = ''pendiente'',
                        expected_delivery = Some (dt_date now + 7), received_date = None\<rparr>
             in (Inr ord,
                 lab\<lparr>lab_reagents := AList.update rn (r\<lparr>orders := orders r @ [ord]\<rparr>)
                                         (lab_reagents lab)\<rparr>)))"

section \<open>Sequences of calls and shapes of values\<close>

text \<open>A sequence of \<^verbatim>\<open>place_order\<close> calls on one manager of the split variant.\<close>

fun place_orders_split ::
  "inventory_manager \<Rightarrow> (datetime \<times> string \<times> real \<times> string) list \<Rightarrow> inventory_manager" where
  "place_orders_split im [] = im"
| "place_orders_split im ((now, rn, q, sn) # cs) =
     place_orders_split (snd (place_order_split now im rn q sn)) cs"

fun is_tuple :: "range \<Rightarrow> bool" where
  "is_tuple (Range_tuple a b) = True"
| "is_tuple (Range_list a b) = False"

section \<open>Concrete states\<close>

text \<open>
  The reagent of the scenario of the specification: \<^verbatim>\<open>Acid\<close>, inventory 100,
  threshold 20. \<open>jan_1_2024\<close> is the day number of 2024-01-01
  (\<^verbatim>\<open>date(2024, 1, 1).toordinal()\<close>).
\<close>

definition acid :: reagent where
  "acid = \<lparr>name = ''Acid'', description = ''acid'', cost = 5, category = ''Acids'',
            inventory = 100, unit = ''mL'', min_threshold = 20, expiry_date = None,
            location = almacen_general, safety_info = [], purchase_history = [],
            usage_history = [], orders = []\<rparr>"

definition jan_1_2024 :: date where
  "jan_1_2024 = 738886"

definition acid_dated :: reagent where
  "acid_dated = acid\<lparr>expiry_date := Some jan_1_2024\<rparr>"

definition noon_june_2024 :: datetime where
  "noon_june_2024 = \<lparr>dt_date = 739038, dt_micro = 43200000000\<rparr>"

definition titration :: recipe where
  "titration = \<lparr>recipe_name = ''Titration'', objective = ''neutralise'',
                 recipe_reagents = [(''Acid'', 30)], procedure = [''mix''],
                 expected_results = [(''pH'', Range_tuple (68 / 10) (72 / 10))]\<rparr>"

definition symmetric :: recipe where
  "symmetric = \<lparr>recipe_name = ''Drift'', objective = ''drift'',
                 recipe_reagents = [(''Acid'', 30)], procedure = [''read''],
                 expected_results = [(''dT'', Range_tuple (- 1) 1)]\<rparr>"

definition system_of :: "reagent \<Rightarrow> laboratory_system" where
  "system_of r =
     \<lparr>inventory_manager = add_reagent_split InventoryManager r,
      result_manager = \<lparr>results_history = []\<rparr>,
      recipes = [(''Titration'', titration)]\<rparr>"

definition sigma :: supplier where
  "sigma = \<lparr>s_name = ''Sigma'', contact_info = ''info'', s_reagents = []\<rparr>"

definition lab_of :: "reagent \<Rightarrow> laboratory" where
  "lab_of r =
     \<lparr>lab_reagents = [(name r, r)], lab_recipes = [(''Titration'', titration)],
      lab_experiments = [], lab_suppliers = [(''Sigma'', sigma)]\<rparr>"

definition just_after_noon :: datetime where
  "just_after_noon = \<lparr>dt_date = 739038, dt_micro = 43200000001\<rparr>"

definition titration_run :: lab_experiment where
  "titration_run =
     \<lparr>recipe = titration, date = noon_june_2024, responsible_people = [''ana''], results = [],
      measurement_validations = [], success = False, experiment_cost = 0,
      experiment_notes = []\<rparr>"

definition drift_run :: lab_experiment where
  "drift_run = titration_run\<lparr>recipe := symmetric\<rparr>"

definition usage_record :: "real \<Rightarrow> real \<Rightarrow> string \<Rightarrow> transaction" where
  "usage_record amt lvl rsn =
     \<lparr>t_date = 739038, amount = amt, old_level = None, new_level = lvl, reason = rsn\<rparr>"

section \<open>Evaluation of the concrete states\<close>

lemmas scen = acid_def acid_dated_def jan_1_2024_def noon_june_2024_def titration_def
  symmetric_def system_of_def sigma_def lab_of_def just_after_noon_def titration_run_def
  drift_run_def usage_record_def InventoryManager_def add_reagent_split_def midnight_def

lemmas validators = validate_string_def validate_positive_number_def validate_date_format_def
  strip_def is_space_def bind_err_def

text \<open>The concrete reagent, recipe and experiment are values the constructors return.\<close>

lemma acid_constructed:
  "Reagent_split ''Acid'' ''acid'' 5 ''Acids'' 100 ''mL'' 20 None None [] = Inr acid"
  "Reagent_mono ''Acid'' ''acid'' 5 ''Acids'' 100 ''mL'' 20 None almacen_general [] = Inr acid"
  by (simp_all add: Reagent_split_def Reagent_mono_def validators scen almacen_general_def)

lemma acid_dated_constructed:
  "Reagent_split ''Acid'' ''acid'' 5 ''Acids'' 100 ''mL'' 20 (Some jan_1_2024) None [] =
     Inr acid_dated"
  by (simp add: Reagent_split_def validators scen almacen_general_def)

lemma titration_constructed:
  "Recipe_split ''Titration'' ''neutralise'' [(''Acid'', 30)] [''mix'']
     [(''pH'', Range_tuple (68 / 10) (72 / 10))] = Inr titration"
  "Recipe_mono ''Titration'' ''neutralise'' [(''Acid'', 30)]
     [(''pH'', Range_tuple (68 / 10) (72 / 10))] [''mix''] = Inr titration"
  by (simp_all add: Recipe_split_def Recipe_mono_def validators scen)

lemma titration_run_constructed:
  "Experiment_split noon_june_2024 titration [''ana''] None = Inr titration_run"
  by (simp add: Experiment_split_def scen)

section \<open>\<^verbatim>\<open>ResultManager.add_result\<close> and the split \<^verbatim>\<open>perform_experiment\<close>\<close>

lemma add_result_AttributeError: "add_result rm e nts = (Inl AttributeError, rm)"
  by (simp add: add_result_def getattr_Experiment_split_def bind_err_def)

text \<open>
  With \<open>add_result_AttributeError\<close> the split \<^verbatim>\<open>perform_experiment\<close> has four ways
  out: \<^verbatim>\<open>None\<close> from the two checks, \<^verbatim>\<open>ValueError\<close> from the constructor, the error
  of a measurement, and \<^verbatim>\<open>AttributeError\<close> after the debit. It never returns a result.
\<close>

lemma perform_experiment_split_cases:
  "perform_experiment_split now sys rn people ms nts =
     (case map_of (recipes sys) rn of
        None \<Rightarrow> (Inr None, sys)
      | Some rc \<Rightarrow>
          if \<not> reagents_available_split (reagents (inventory_manager sys)) (recipe_reagents rc)
          then (Inr None, sys)
          else if people = [] then (Inl ValueError, sys)
          else (case record_all_split
                       \<lparr>recipe = rc, date = now, responsible_people = people, results = [],
                        measurement_validations = [], success = False, experiment_cost = 0,
                        experiment_notes = []\<rparr> ms of
                  Inl err \<Rightarrow> (Inl err, sys)
                | Inr e1 \<Rightarrow>
                    (Inl AttributeError,
                     sys\<lparr>inventory_manager :=
                           debit_split now rn (inventory_manager sys) (recipe_reagents rc)\<rparr>)))"
  by (simp add: perform_experiment_split_def Experiment_split_def add_result_AttributeError Let_def
           split: option.splits sum.splits)

lemma record_result_split_error:
  "fst (record_result_split e m v raw) = Inl err \<Longrightarrow> err = ZeroDivisionError"
  by (auto simp: record_result_split_def Let_def split: option.splits prod.splits if_splits)

lemma record_all_split_error:
  "record_all_split e ms = Inl err \<Longrightarrow> err = ZeroDivisionError"
proof (induction ms arbitrary: e)
  case Nil
  then show ?case by simp
next
  case (Cons p ms)
  obtain m v where p: "p = (m, v)" by (cases p)
  show ?case
  proof (cases "record_result_split e m v []")
    case (Pair res e')
    show ?thesis
    proof (cases res)
      case (Inl x)
      with Pair Cons.prems p record_result_split_error[of e m v "[]" x] show ?thesis by simp
    next
      case (Inr ok)
      with Pair Cons.prems p have "record_all_split e' ms = Inl err" by simp
      then show ?thesis by (rule Cons.IH)
    qed
  qed
qed

subsection \<open>The debit loop\<close>

lemma update_stock_reagents:
  "map_of (reagents (snd (update_stock now im n amt rsn))) k =
     (if k = n then (case map_of (reagents im) n of None \<Rightarrow> None
                     | Some r \<Rightarrow> Some (snd (update_inventory_split now r amt rsn)))
      else map_of (reagents im) k)"
  by (simp add: update_stock_def update_conv' split: option.splits prod.splits)

lemma update_inventory_split_debit:
  "a \<le> inventory r \<Longrightarrow>
   inventory (snd (update_inventory_split now r (- a) rsn)) = inventory r - a"
  by (simp add: update_inventory_split_def Let_def)

lemma debit_split_other:
  "n \<notin> fst ` set reqs \<Longrightarrow>
   map_of (reagents (debit_split now rn im reqs)) n = map_of (reagents im) n"
proof (induction reqs arbitrary: im)
  case Nil
  then show ?case by simp
next
  case (Cons p reqs)
  obtain k a where p: "p = (k, a)" by (cases p)
  from Cons.prems p have "n \<noteq> k" and "n \<notin> fst ` set reqs" by auto
  with Cons.IH p show ?case by (simp add: update_stock_reagents)
qed

lemma reagents_available_split_cong:
  "(\<And>k. k \<in> fst ` set reqs \<Longrightarrow> map_of rs k = map_of rs' k) \<Longrightarrow>
   reagents_available_split rs reqs = reagents_available_split rs' reqs"
proof (induction reqs)
  case Nil
  then show ?case by simp
next
  case (Cons p reqs)
  obtain k a where p: "p = (k, a)" by (cases p)
  have "map_of rs k = map_of rs' k" using Cons.prems p by simp
  moreover have "reagents_available_split rs reqs = reagents_available_split rs' reqs"
    using Cons.prems by (intro Cons.IH) simp
  ultimately show ?case using p by (simp split: option.splits)
qed

text \<open>
  When the keys of the recipe are distinct (they are the keys of a dict) and the
  availability loop has accepted them, the debit loop lowers the inventory of every
  required reagent by the required amount: no call of \<^verbatim>\<open>update_inventory\<close> is refused.
\<close>

lemma debit_split_inventory:
  assumes "distinct (map fst reqs)"
    and "reagents_available_split (reagents im) reqs"
    and "(n, a) \<in> set reqs"
  shows "\<exists>r r'. map_of (reagents im) n = Some r \<and>
           map_of (reagents (debit_split now rn im reqs)) n = Some r' \<and>
           inventory r' = inventory r - a"
  using assms
proof (induction reqs arbitrary: im)
  case Nil
  then show ?case by simp
next
  case (Cons p reqs)
  obtain k b where p: "p = (k, b)" by (cases p)
  let ?im1 = "snd (update_stock now im k (- b) (''Usado en experimento: '' @ rn))"
  from Cons.prems(1) p have knotin: "k \<notin> fst ` set reqs" and dist: "distinct (map fst reqs)"
    by auto
  from Cons.prems(2) p obtain r where r: "map_of (reagents im) k = Some r" "b \<le> inventory r"
    and avail: "reagents_available_split (reagents im) reqs"
    by (auto split: option.splits if_splits)
  have same: "\<And>j. j \<in> fst ` set reqs \<Longrightarrow> map_of (reagents ?im1) j = map_of (reagents im) j"
    using knotin by (auto simp: update_stock_reagents)
  have avail1: "reagents_available_split (reagents ?im1) reqs"
    using avail reagents_available_split_cong[of reqs "reagents ?im1" "reagents im"] same by blast
  show ?case
  proof (cases "(n, a) = (k, b)")
    case True
    have "map_of (reagents (debit_split now rn ?im1 reqs)) k = map_of (reagents ?im1) k"
      using knotin by (rule debit_split_other)
    also have "\<dots> = Some (snd (update_inventory_split now r (- b) (''Usado en experimento: '' @ rn)))"
      using r by (simp add: update_stock_reagents)
    finally show ?thesis using True p r update_inventory_split_debit[OF r(2)] by simp
  next
    case False
    with Cons.prems(3) p have mem: "(n, a) \<in> set reqs" by auto
    then have nin: "n \<in> fst ` set reqs" by force
    from Cons.IH[OF dist avail1 mem] obtain r1 r' where
      "map_of (reagents ?im1) n = Some r1"
      "map_of (reagents (debit_split now rn ?im1 reqs)) n = Some r'"
      "inventory r' = inventory r1 - a" by blast
    with same[OF nin] p show ?thesis by simp
  qed
qed

lemmas pe_eval = perform_experiment_split_def Experiment_split_def record_result_split_def
  add_result_AttributeError update_stock_def update_inventory_split_def Let_def scen

text \<open>
  C7. For every experiment of the split \<^verbatim>\<open>Experiment\<close> class, every result manager
  and every notes string, \<^verbatim>\<open>add_result\<close> raises \<^verbatim>\<open>AttributeError\<close> (at its first
  statement, the lookup of \<^verbatim>\<open>get_detailed_results\<close>) and leaves \<^verbatim>\<open>results_history\<close>
  as it was. Whenever the split \<^verbatim>\<open>perform_experiment\<close> raises \<^verbatim>\<open>AttributeError\<close>,
  the recipe was found and the final state is the initial one with the debit loop
  applied to the inventory manager and nothing else changed; with distinct recipe keys
  every required reagent has been debited by its required amount.
\<close>

theorem add_result_raises_after_debit:
  "add_result rm e nts = (Inl AttributeError, rm) \<and>
   (fst (perform_experiment_split now sys rn people ms nts) = Inl AttributeError \<longrightarrow>
      (\<exists>rc. map_of (recipes sys) rn = Some rc \<and>
            snd (perform_experiment_split now sys rn people ms nts) =
              sys\<lparr>inventory_manager :=
                    debit_split now rn (inventory_manager sys) (recipe_reagents rc)\<rparr> \<and>
            (distinct (map fst (recipe_reagents rc)) \<longrightarrow>
               (\<forall>(n, a) \<in> set (recipe_reagents rc).
                  \<exists>r r'. map_of (reagents (inventory_manager sys)) n = Some r \<and>
                    map_of (reagents (inventory_manager
                              (snd (perform_experiment_split now sys rn people ms nts)))) n = Some r' \<and>
                    inventory r' = inventory r - a))))"
proof (intro conjI impI)
  show "add_result rm e nts = (Inl AttributeError, rm)" by (rule add_result_AttributeError)
next
  assume raised: "fst (perform_experiment_split now sys rn people ms nts) = Inl AttributeError"
  then obtain rc where rc: "map_of (recipes sys) rn = Some rc"
    and avail: "reagents_available_split (reagents (inventory_manager sys)) (recipe_reagents rc)"
    and final: "snd (perform_experiment_split now sys rn people ms nts) =
              sys\<lparr>inventory_manager :=
                    debit_split now rn (inventory_manager sys) (recipe_reagents rc)\<rparr>"
    using record_all_split_error
    by (fastforce simp: perform_experiment_split_cases split: option.splits if_splits sum.splits)
  have "\<forall>(n, a) \<in> set (recipe_reagents rc).
          \<exists>r r'. map_of (reagents (inventory_manager sys)) n = Some r \<and>
            map_of (reagents (inventory_manager
                      (snd (perform_experiment_split now sys rn people ms nts)))) n = Some r' \<and>
            inventory r' = inventory r - a"
    if "distinct (map fst (recipe_reagents rc))"
    using debit_split_inventory[OF that avail] final by auto
  with rc final show "\<exists>rc. map_of (recipes sys) rn = Some rc \<and>
            snd (perform_experiment_split now sys rn people ms nts) =
              sys\<lparr>inventory_manager :=
                    debit_split now rn (inventory_manager sys) (recipe_reagents rc)\<rparr> \<and>
            (distinct (map fst (recipe_reagents rc)) \<longrightarrow>
               (\<forall>(n, a) \<in> set (recipe_reagents rc).
                  \<exists>r r'. map_of (reagents (inventory_manager sys)) n = Some r \<and>
                    map_of (reagents (inventory_manager
                              (snd (perform_experiment_split now sys rn people ms nts)))) n = Some r' \<and>
                    inventory r' = inventory r - a))"
    by blast
qed

theorem add_result_raises_after_debit_witness:
  "fst (perform_experiment_split noon_june_2024 (system_of acid) ''Titration'' [''ana'']
          [(''pH'', 7)] ''ok'') = Inl AttributeError \<and>
   distinct (map fst (recipe_reagents titration)) \<and>
   (\<exists>r'. map_of (reagents (inventory_manager
                 (snd (perform_experiment_split noon_june_2024 (system_of acid) ''Titration''
                         [''ana''] [(''pH'', 7)] ''ok'')))) ''Acid'' = Some r' \<and>
         inventory r' = 70)"
proof -
  let ?out = "perform_experiment_split noon_june_2024 (system_of acid) ''Titration'' [''ana'']
                [(''pH'', 7)] ''ok''"
  have raised: "fst ?out = Inl AttributeError"
    by (simp add: pe_eval)
  have rcp: "map_of (recipes (system_of acid)) ''Titration'' = Some titration"
    by (simp add: system_of_def)
  have dist: "distinct (map fst (recipe_reagents titration))"
    by (simp add: titration_def)
  have mem: "(''Acid'', 30) \<in> set (recipe_reagents titration)"
    by (simp add: titration_def)
  have before: "map_of (reagents (inventory_manager (system_of acid))) ''Acid'' = Some acid"
    by (simp add: scen)
  from add_result_raises_after_debit[of "\<lparr>results_history = []\<rparr>" titration_run "''ok''"
         noon_june_2024 "system_of acid" "''Titration''" "[''ana'']" "[(''pH'', 7)]"]
       raised rcp dist mem
  have "\<exists>r r'. map_of (reagents (inventory_manager (system_of acid))) ''Acid'' = Some r \<and>
          map_of (reagents (inventory_manager (snd ?out))) ''Acid'' = Some r' \<and>
          inventory r' = inventory r - 30"
    by fastforce
  with before raised dist show ?thesis by (auto simp: acid_def)
qed

section \<open>\<^verbatim>\<open>perform_experiment\<close>: the precondition check\<close>

lemma reagents_available_split_iff:
  "reagents_available_split rs reqs \<longleftrightarrow>
     (\<forall>(n, a) \<in> set reqs. \<exists>r. map_of rs n = Some r \<and> a \<le> inventory r)"
proof (induction reqs)
  case Nil
  then show ?case by simp
next
  case (Cons p reqs)
  obtain n a where p: "p = (n, a)" by (cases p)
  show ?case using Cons.IH p by (cases "map_of rs n") auto
qed

lemma check_reagents_mono_None_iff:
  "check_reagents_mono now rs reqs = None \<longleftrightarrow>
     (\<forall>(n, a) \<in> set reqs.
        \<exists>r. map_of rs n = Some r \<and> a \<le> inventory r \<and> \<not> is_expired_mono now r)"
proof (induction reqs)
  case Nil
  then show ?case by simp
next
  case (Cons p reqs)
  obtain n a where p: "p = (n, a)" by (cases p)
  show ?case using Cons.IH p by (cases "map_of rs n") auto
qed

text \<open>
  The split variant changes nothing when the recipe is missing or its own check (a
  reagent missing or understocked) fails. Its check does not look at the expiry date.
\<close>

lemma perform_experiment_split_refuses:
  "map_of (recipes sys) rn = None \<or>
   (\<exists>rc. map_of (recipes sys) rn = Some rc \<and>
         \<not> reagents_available_split (reagents (inventory_manager sys)) (recipe_reagents rc)) \<Longrightarrow>
   perform_experiment_split now sys rn people ms nts = (Inr None, sys)"
  by (auto simp: perform_experiment_split_def)

lemma perform_experiment_mono_no_recipe:
  "map_of (lab_recipes lab) rn = None \<Longrightarrow>
   perform_experiment_mono now lab rn people ms nts = (Inr (Inl (Recipe_not_found rn)), lab)"
  by (simp add: perform_experiment_mono_def)

lemma perform_experiment_mono_refuses:
  "map_of (lab_recipes lab) rn = Some rc \<Longrightarrow>
   check_reagents_mono now (lab_reagents lab) (recipe_reagents rc) = Some msg \<Longrightarrow>
   perform_experiment_mono now lab rn people ms nts = (Inr (Inl msg), lab)"
  by (simp add: perform_experiment_mono_def)

text \<open>
  The monolithic script is atomic for all four conditions: a missing recipe, or a
  required reagent that is missing, understocked or expired, gives an error message
  and the state as it was.
\<close>

lemma perform_experiment_mono_atomic:
  assumes "map_of (lab_recipes lab) rn = None \<or>
     (\<exists>rc. map_of (lab_recipes lab) rn = Some rc \<and>
        (\<exists>(n, a) \<in> set (recipe_reagents rc).
           case map_of (lab_reagents lab) n of
             None \<Rightarrow> True
           | Some r \<Rightarrow> inventory r < a \<or> is_expired_mono now r))"
  shows "\<exists>msg. perform_experiment_mono now lab rn people ms nts = (Inr (Inl msg), lab)"
proof (cases "map_of (lab_recipes lab) rn")
  case None
  then show ?thesis by (simp add: perform_experiment_mono_no_recipe)
next
  case (Some rc)
  with assms obtain n a where mem: "(n, a) \<in> set (recipe_reagents rc)"
    and bad: "case map_of (lab_reagents lab) n of None \<Rightarrow> True
              | Some r \<Rightarrow> inventory r < a \<or> is_expired_mono now r"
    by auto
  have "check_reagents_mono now (lab_reagents lab) (recipe_reagents rc) \<noteq> None"
  proof
    assume "check_reagents_mono now (lab_reagents lab) (recipe_reagents rc) = None"
    with mem obtain r where "map_of (lab_reagents lab) n = Some r" "a \<le> inventory r"
      "\<not> is_expired_mono now r"
      unfolding check_reagents_mono_None_iff by blast
    with bad show False by simp
  qed
  then obtain msg where "check_reagents_mono now (lab_reagents lab) (recipe_reagents rc) = Some msg"
    by auto
  with Some show ?thesis by (simp add: perform_experiment_mono_refuses)
qed

text \<open>In the monolithic script the first failing reagent decides the message.\<close>

lemma check_reagents_mono_first:
  "check_reagents_mono now rs reqs = None \<Longrightarrow> map_of rs n = Some r \<Longrightarrow>
   a \<le> inventory r \<Longrightarrow> is_expired_mono now r \<Longrightarrow>
   check_reagents_mono now rs (reqs @ (n, a) # rest) = Some (Reagent_expired n)"
proof (induction reqs)
  case Nil
  then show ?case by simp
next
  case (Cons p reqs)
  obtain k b where p: "p = (k, b)" by (cases p)
  show ?case using Cons p by (cases "map_of rs k") (auto split: if_splits)
qed

text \<open>
  C1. \<^verbatim>\<open>perform_experiment\<close> is atomic when the precondition check fails, the check
  including expiry. The split variant at a failing input: the only required reagent,
  \<^verbatim>\<open>Acid\<close>, expired on 2024-01-01 and the call is made at noon of 2024-06-01 with 100
  in stock and 30 required. The call does not leave the state as it was: it raises
  \<^verbatim>\<open>AttributeError\<close> with the inventory of \<^verbatim>\<open>Acid\<close> lowered to 70 and a usage
  record appended.
\<close>

theorem perform_experiment_split_debits_expired:
  "is_expired_split noon_june_2024 acid_dated \<and>
   perform_experiment_split noon_june_2024 (system_of acid_dated) ''Titration'' [''ana'']
       [(''pH'', 7)] ''ok'' =
     (Inl AttributeError,
      system_of (acid_dated\<lparr>inventory := 70,
                   usage_history := [usage_record (- 30) 70 ''Usado en experimento: Titration'']\<rparr>))"
  by (simp add: is_expired_split_def dt_greater_def pe_eval)

text \<open>
  C4. A call of \<^verbatim>\<open>perform_experiment\<close> with an expired required reagent fails with
  \<^verbatim>\<open>Expired\<close> before any mutation. At the same state, one microsecond later and
  with no measurement: the monolithic script returns the expiry message and the state
  unchanged; the availability loop of the split variant accepts the expired reagent and
  the call consumes 30 of it.
\<close>

theorem perform_experiment_split_consumes_expired:
  "is_expired_split just_after_noon acid_dated \<and>
   is_expired_mono just_after_noon acid_dated \<and>
   reagents_available_split (reagents (inventory_manager (system_of acid_dated)))
     (recipe_reagents titration) \<and>
   fst (perform_experiment_split just_after_noon (system_of acid_dated) ''Titration'' [''luis'']
          [] []) = Inl AttributeError \<and>
   map_of (reagents (inventory_manager
            (snd (perform_experiment_split just_after_noon (system_of acid_dated) ''Titration''
                    [''luis''] [] [])))) ''Acid'' =
     Some (acid_dated\<lparr>inventory := 70,
             usage_history := [usage_record (- 30) 70 ''Usado en experimento: Titration'']\<rparr>) \<and>
   perform_experiment_mono just_after_noon (lab_of acid_dated) ''Titration'' [''luis''] [] [] =
     (Inr (Inl (Reagent_expired ''Acid'')), lab_of acid_dated)"
  by (simp add: is_expired_split_def is_expired_mono_def dt_greater_def pe_eval
        perform_experiment_mono_def)

section \<open>\<^verbatim>\<open>Reagent.update_inventory\<close> and \<^verbatim>\<open>InventoryManager.update_stock\<close>\<close>

lemma update_inventory_split_rejects:
  "inventory r + a < 0 \<Longrightarrow> update_inventory_split now r a rsn = (False, r)"
  by (simp add: update_inventory_split_def)

lemma update_inventory_split_purchase:
  "0 \<le> inventory r + a \<Longrightarrow> 0 < a \<Longrightarrow>
   update_inventory_split now r a rsn =
     (True, r\<lparr>inventory := inventory r + a,
              purchase_history := purchase_history r @
                [\<lparr>t_date = dt_date now, amount = a, old_level = None,
                  new_level = inventory r + a, reason = rsn\<rparr>]\<rparr>)"
  by (simp add: update_inventory_split_def Let_def)

text \<open>An amount of zero is recorded in the usage history.\<close>

lemma update_inventory_split_usage:
  "0 \<le> inventory r + a \<Longrightarrow> a \<le> 0 \<Longrightarrow>
   update_inventory_split now r a rsn =
     (True, r\<lparr>inventory := inventory r + a,
              usage_history := usage_history r @
                [\<lparr>t_date = dt_date now, amount = a, old_level = None,
                  new_level = inventory r + a, reason = rsn\<rparr>]\<rparr>)"
  by (simp add: update_inventory_split_def Let_def)

lemma update_inventory_split_nonneg:
  "0 \<le> inventory r \<Longrightarrow> 0 \<le> inventory (snd (update_inventory_split now r a rsn))"
  by (simp add: update_inventory_split_def Let_def)

lemma update_inventory_calls_nonneg:
  "0 \<le> inventory r \<Longrightarrow> 0 \<le> inventory (update_inventory_calls r cs)"
proof (induction cs arbitrary: r)
  case Nil
  then show ?case by simp
next
  case (Cons c cs)
  obtain now a rsn where c: "c = (now, a, rsn)" by (cases c)
  have "0 \<le> inventory (snd (update_inventory_split now r a rsn))"
    using Cons.prems by (rule update_inventory_split_nonneg)
  then show ?case using c Cons.IH by simp
qed

lemma update_inventory_mono_applies:
  "inventory (update_inventory_mono now r a rsn) = inventory r + a"
  by (simp add: update_inventory_mono_def Let_def)

text \<open>
  C2, as amended. The \<^verbatim>\<open>Reagent\<close> of \<^verbatim>\<open>models.py\<close>: when \<open>inventory + a < 0\<close>
  \<^verbatim>\<open>update_inventory\<close> returns \<^verbatim>\<open>False\<close> and leaves inventory and both histories
  as they were; when \<open>inventory + a \<ge> 0\<close> it returns \<^verbatim>\<open>True\<close>, the new inventory is
  the old one plus \<open>a\<close>, and exactly one record is appended, to the purchase history
  when \<open>a > 0\<close> and to the usage history when \<open>a \<le> 0\<close>, the other history staying as
  it was; so the inventory of a reagent that starts non-negative is non-negative after
  any sequence of calls. The \<^verbatim>\<open>Reagent\<close> of the monolithic script has no floor and no
  result: every call sets the inventory to the old one plus \<open>a\<close> and appends exactly
  one record, to the purchase history when \<open>a > 0\<close> and to the usage history when
  \<open>a \<le> 0\<close>.
\<close>

theorem update_inventory_contract:
  "(inventory r + a < 0 \<longrightarrow> update_inventory_split now r a rsn = (False, r)) \<and>
   (0 \<le> inventory r + a \<and> 0 < a \<longrightarrow>
      update_inventory_split now r a rsn =
        (True, r\<lparr>inventory := inventory r + a,
                 purchase_history := purchase_history r @
                   [\<lparr>t_date = dt_date now, amount = a, old_level = None,
                     new_level = inventory r + a, reason = rsn\<rparr>]\<rparr>)) \<and>
   (0 \<le> inventory r + a \<and> a \<le> 0 \<longrightarrow>
      update_inventory_split now r a rsn =
        (True, r\<lparr>inventory := inventory r + a,
                 usage_history := usage_history r @
                   [\<lparr>t_date = dt_date now, amount = a, old_level = None,
                     new_level = inventory r + a, reason = rsn\<rparr>]\<rparr>)) \<and>
   (0 \<le> inventory r \<longrightarrow> 0 \<le> inventory (update_inventory_calls r cs)) \<and>
   (0 < a \<longrightarrow>
      update_inventory_mono now r a rsn =
        r\<lparr>inventory := inventory r + a,
          purchase_history := purchase_history r @
            [\<lparr>t_date = dt_date now, amount = a, old_level = Some (inventory r),
              new_level = inventory r + a, reason = rsn\<rparr>]\<rparr>) \<and>
   (a \<le> 0 \<longrightarrow>
      update_inventory_mono now r a rsn =
        r\<lparr>inventory := inventory r + a,
          usage_history := usage_history r @
            [\<lparr>t_date = dt_date now, amount = a, old_level = Some (inventory r),
              new_level = inventory r + a, reason = rsn\<rparr>]\<rparr>)"
proof (intro conjI impI)
  assume "inventory r + a < 0"
  then show "update_inventory_split now r a rsn = (False, r)"
    by (rule update_inventory_split_rejects)
next
  assume "0 \<le> inventory r + a \<and> 0 < a"
  then show "update_inventory_split now r a rsn =
        (True, r\<lparr>inventory := inventory r + a,
                 purchase_history := purchase_history r @
                   [\<lparr>t_date = dt_date now, amount = a, old_level = None,
                     new_level = inventory r + a, reason = rsn\<rparr>]\<rparr>)"
    by (simp add: update_inventory_split_purchase)
next
  assume "0 \<le> inventory r + a \<and> a \<le> 0"
  then show "update_inventory_split now r a rsn =
        (True, r\<lparr>inventory := inventory r + a,
                 usage_history := usage_history r @
                   [\<lparr>t_date = dt_date now, amount = a, old_level = None,
                     new_level = inventory r + a, reason = rsn\<rparr>]\<rparr>)"
    by (simp add: update_inventory_split_usage)
next
  assume "0 \<le> inventory r"
  then show "0 \<le> inventory (update_inventory_calls r cs)"
    by (rule update_inventory_calls_nonneg)
next
  assume "0 < a"
  then show "update_inventory_mono now r a rsn =
        r\<lparr>inventory := inventory r + a,
          purchase_history := purchase_history r @
            [\<lparr>t_date = dt_date now, amount = a, old_level = Some (inventory r),
              new_level = inventory r + a, reason = rsn\<rparr>]\<rparr>"
    by (simp add: update_inventory_mono_def Let_def)
next
  assume "a \<le> 0"
  then show "update_inventory_mono now r a rsn =
        r\<lparr>inventory := inventory r + a,
          usage_history := usage_history r @
            [\<lparr>t_date = dt_date now, amount = a, old_level = Some (inventory r),
              new_level = inventory r + a, reason = rsn\<rparr>]\<rparr>"
    by (simp add: update_inventory_mono_def Let_def)
qed

theorem update_inventory_contract_witness:
  "inventory acid + (- 150) < 0 \<and>
   update_inventory_split noon_june_2024 acid (- 150) ''used'' = (False, acid) \<and>
   0 \<le> inventory acid + (- 30) \<and> (- 30 :: real) \<le> 0 \<and>
   update_inventory_split noon_june_2024 acid (- 30) ''used'' =
     (True, acid\<lparr>inventory := 70, usage_history := [usage_record (- 30) 70 ''used'']\<rparr>) \<and>
   0 \<le> inventory acid + 50 \<and> (0 :: real) < 50 \<and>
   update_inventory_split noon_june_2024 acid 50 ''bought'' =
     (True, acid\<lparr>inventory := 150,
              purchase_history := [(usage_record 50 150 ''bought'')]\<rparr>) \<and>
   0 \<le> inventory acid \<and>
   0 \<le> inventory (update_inventory_calls acid
          [(noon_june_2024, - 150, ''used''), (just_after_noon, - 30, ''used'')]) \<and>
   update_inventory_mono noon_june_2024 acid 50 ''bought'' =
     acid\<lparr>inventory := 150,
          purchase_history := [(usage_record 50 150 ''bought'')\<lparr>old_level := Some 100\<rparr>]\<rparr> \<and>
   update_inventory_mono noon_june_2024 acid (- 30) ''used'' =
     acid\<lparr>inventory := 70,
          usage_history := [(usage_record (- 30) 70 ''used'')\<lparr>old_level := Some 100\<rparr>]\<rparr>"
proof -
  have h1: "inventory acid + (- 150) < 0" by (simp add: acid_def)
  have h2: "0 \<le> inventory acid + (- 30) \<and> (- 30 :: real) \<le> 0" by (simp add: acid_def)
  have h3: "0 \<le> inventory acid + 50 \<and> (0 :: real) < 50" by (simp add: acid_def)
  have h4: "0 \<le> inventory acid" by (simp add: acid_def)
  note t1 = update_inventory_contract[of acid "- 150" noon_june_2024 "''used''"
      "[(noon_june_2024, - 150, ''used''), (just_after_noon, - 30, ''used'')]"]
  note t2 = update_inventory_contract[of acid "- 30" noon_june_2024 "''used''" "[]"]
  note t3 = update_inventory_contract[of acid 50 noon_june_2024 "''bought''" "[]"]
  from t1 h1 have c1: "update_inventory_split noon_june_2024 acid (- 150) ''used'' = (False, acid)"
    by blast
  from t1 h4 have c4: "0 \<le> inventory (update_inventory_calls acid
          [(noon_june_2024, - 150, ''used''), (just_after_noon, - 30, ''used'')])"
    by blast
  from t2 h2 have c2: "update_inventory_split noon_june_2024 acid (- 30) ''used'' =
     (True, acid\<lparr>inventory := 70, usage_history := [usage_record (- 30) 70 ''used'']\<rparr>)"
    by (simp add: scen)
  from t3 h3 have c3: "update_inventory_split noon_june_2024 acid 50 ''bought'' =
     (True, acid\<lparr>inventory := 150,
              purchase_history := [(usage_record 50 150 ''bought'')]\<rparr>)"
    by (simp add: scen)
  from t3 h3 have c5: "update_inventory_mono noon_june_2024 acid 50 ''bought'' =
     acid\<lparr>inventory := 150,
          purchase_history := [(usage_record 50 150 ''bought'')\<lparr>old_level := Some 100\<rparr>]\<rparr>"
    by (simp add: scen)
  from t2 h2 have c6: "update_inventory_mono noon_june_2024 acid (- 30) ''used'' =
     acid\<lparr>inventory := 70,
          usage_history := [(usage_record (- 30) 70 ''used'')\<lparr>old_level := Some 100\<rparr>]\<rparr>"
    by (simp add: scen)
  from h1 h2 h3 h4 c1 c2 c3 c4 c5 c6 show ?thesis by blast
qed

text \<open>
  The claim as first stated, for every \<^verbatim>\<open>Reagent\<close>, fails on the monolithic script:
  \<^verbatim>\<open>Acid\<close> with 100 in stock and a change of -150 ends with an inventory of -50 and
  a usage record appended.
\<close>

theorem update_inventory_mono_below_zero:
  "inventory acid + (- 150) < 0 \<and>
   update_inventory_mono noon_june_2024 acid (- 150) ''used'' =
     acid\<lparr>inventory := - 50,
          usage_history := [(usage_record (- 150) (- 50) ''used'')\<lparr>old_level := Some 100\<rparr>]\<rparr> \<and>
   inventory (update_inventory_mono noon_june_2024 acid (- 150) ''used'') < 0 \<and>
   update_inventory_mono noon_june_2024 acid (- 150) ''used'' \<noteq> acid"
  by (simp add: update_inventory_mono_def scen)

lemma update_stock_missing:
  "map_of (reagents im) n = None \<Longrightarrow> update_stock now im n a rsn = (False, im)"
  by (simp add: update_stock_def)

lemma update_stock_present:
  "map_of (reagents im) n = Some r \<Longrightarrow> fst (update_stock now im n a rsn) = True"
  by (simp add: update_stock_def split: prod.splits)

text \<open>
  C6. \<^verbatim>\<open>update_stock\<close> returns success if and only if the delegate
  \<^verbatim>\<open>update_inventory\<close> succeeded. At \<^verbatim>\<open>Acid\<close> with 100 in stock and a change of
  -150 the delegate returns \<^verbatim>\<open>False\<close> and changes nothing, and \<^verbatim>\<open>update_stock\<close>
  returns \<^verbatim>\<open>True\<close>.
\<close>

theorem update_stock_reports_rejected_update:
  "update_inventory_split noon_june_2024 acid (- 150) ''used'' = (False, acid) \<and>
   update_stock noon_june_2024 (add_reagent_split InventoryManager acid) ''Acid'' (- 150) ''used'' =
     (True, add_reagent_split InventoryManager acid)"
  by (simp add: update_stock_def update_inventory_split_def scen)

section \<open>\<^verbatim>\<open>Reagent.is_expired\<close>\<close>

lemma is_expired_mono_iff:
  "is_expired_mono now r \<longleftrightarrow> (\<exists>d. expiry_date r = Some d \<and> d \<le> dt_date now)"
  by (simp add: is_expired_mono_def split: option.splits)

lemma is_expired_split_iff:
  "is_expired_split now r \<longleftrightarrow>
     (\<exists>d. expiry_date r = Some d \<and> (d < dt_date now \<or> (d = dt_date now \<and> 0 < dt_micro now)))"
  by (auto simp: is_expired_split_def dt_greater_def midnight_def split: option.splits)

lemma is_expired_split_after_midnight:
  "0 < dt_micro now \<Longrightarrow> is_expired_split now r = is_expired_mono now r"
  by (auto simp: is_expired_split_iff is_expired_mono_iff)

text \<open>
  C8. \<^verbatim>\<open>is_expired\<close> is true exactly when the current date is on or after the expiry
  date. At the first instant of the expiry date (2024-01-01 00:00:00.000000) the
  current date is the expiry date, the monolithic script answers \<^verbatim>\<open>True\<close> and the
  split variant answers \<^verbatim>\<open>False\<close>. (At every other instant the two agree:
  \<open>is_expired_split_after_midnight\<close>.)
\<close>

theorem is_expired_split_at_midnight:
  "expiry_date acid_dated = Some jan_1_2024 \<and>
   dt_date (midnight jan_1_2024) = jan_1_2024 \<and>
   is_expired_split (midnight jan_1_2024) acid_dated = False \<and>
   is_expired_mono (midnight jan_1_2024) acid_dated = True"
  by (simp add: is_expired_split_def is_expired_mono_def dt_greater_def scen)

section \<open>\<^verbatim>\<open>Experiment.validate_results\<close>\<close>

lemma declared_valid_iff:
  "declared_valid rs vs er \<longleftrightarrow>
     (\<forall>m \<in> fst ` set er. map_of rs m \<noteq> None \<and> (\<exists>vd. map_of vs m = Some vd \<and> is_valid vd))"
proof (induction er)
  case Nil
  then show ?case by simp
next
  case (Cons p er)
  obtain m rg where p: "p = (m, rg)" by (cases p)
  show ?case using Cons.IH p by (cases "map_of rs m"; cases "map_of vs m") auto
qed

text \<open>
  The monolithic script is fail-closed: true exactly when every declared measurement
  is recorded and has a stored validation that says valid.
\<close>

lemma validate_results_mono_iff:
  "validate_results_mono e \<longleftrightarrow>
     (\<forall>m \<in> fst ` set (expected_results (recipe e)).
        m \<in> fst ` set (results e) \<and>
        (\<exists>vd. map_of (measurement_validations e) m = Some vd \<and> is_valid vd))"
  by (simp add: validate_results_mono_def declared_valid_iff map_of_eq_None_iff)

lemma results_in_range_iff:
  "results_in_range er rs \<longleftrightarrow>
     (\<forall>(m, v) \<in> set rs. \<forall>rg. map_of er m = Some rg \<longrightarrow>
        fst (bounds rg) \<le> v \<and> v \<le> snd (bounds rg))"
proof (induction rs)
  case Nil
  then show ?case by simp
next
  case (Cons p rs)
  obtain m v where p: "p = (m, v)" by (cases p)
  show ?case using Cons.IH p by (cases "map_of er m") (auto split: prod.splits)
qed

text \<open>
  The split variant looks at the recorded results only: it is true exactly when there
  is a result, the recipe declares a range, and every recorded value whose measurement
  the recipe declares lies in its range.
\<close>

lemma validate_results_split_iff:
  "validate_results_split e \<longleftrightarrow>
     results e \<noteq> [] \<and> expected_results (recipe e) \<noteq> [] \<and>
     (\<forall>(m, v) \<in> set (results e). \<forall>rg. map_of (expected_results (recipe e)) m = Some rg \<longrightarrow>
        fst (bounds rg) \<le> v \<and> v \<le> snd (bounds rg))"
  by (simp add: validate_results_split_def results_in_range_iff)

text \<open>
  C3. \<^verbatim>\<open>validate_results\<close> is true if and only if every measurement the recipe
  declares is present in the results and valid; a missing declared measurement makes
  it false. The split variant at an experiment of the recipe that declares
  \<^verbatim>\<open>pH\<close> in [6.8, 7.2], after the single call \<^verbatim>\<open>record_result("temp", 25)\<close>:
  \<^verbatim>\<open>pH\<close> is declared and absent from the results, and \<^verbatim>\<open>validate_results\<close>
  returns \<^verbatim>\<open>True\<close>.
\<close>

theorem validate_results_split_missing_measurement:
  "Experiment_split noon_june_2024 titration [''ana''] None = Inr titration_run \<and>
   record_result_split titration_run ''temp'' 25 [] =
     (Inr True, titration_run\<lparr>results := [(''temp'', 25)]\<rparr>) \<and>
   map_of (expected_results (recipe titration_run)) ''pH'' =
     Some (Range_tuple (68 / 10) (72 / 10)) \<and>
   map_of (results (titration_run\<lparr>results := [(''temp'', 25)]\<rparr>)) ''pH'' = None \<and>
   validate_results_split (titration_run\<lparr>results := [(''temp'', 25)]\<rparr>) = True"
  by (simp add: Experiment_split_def record_result_split_def validate_results_split_def scen)

section \<open>\<^verbatim>\<open>Experiment.record_result\<close>\<close>

lemma record_result_split_defined:
  "map_of (expected_results (recipe e)) m = Some rg \<Longrightarrow> bounds rg = (lo, hi) \<Longrightarrow>
   lo + hi \<noteq> 0 \<Longrightarrow>
   record_result_split e m v raw =
     (Inr (lo \<le> v \<and> v \<le> hi),
      e\<lparr>results := AList.update m v (results e),
        measurement_validations :=
          AList.update m
            \<lparr>v_value = Some v, is_valid = (lo \<le> v \<and> v \<le> hi),
             deviation = Some ((v - (lo + hi) / 2) / ((lo + hi) / 2) * 100), raw_data = raw,
             expected_range = Some (Range_tuple lo hi)\<rparr>
            (measurement_validations e)\<rparr>)"
  by (simp add: record_result_split_def Let_def)

lemma record_result_split_raises:
  "map_of (expected_results (recipe e)) m = Some rg \<Longrightarrow> bounds rg = (lo, hi) \<Longrightarrow>
   lo + hi = 0 \<Longrightarrow>
   record_result_split e m v raw =
     (Inl ZeroDivisionError, e\<lparr>results := AList.update m v (results e)\<rparr>)"
  by (simp add: record_result_split_def Let_def)

lemma record_result_split_undeclared:
  "map_of (expected_results (recipe e)) m = None \<Longrightarrow>
   record_result_split e m v raw = (Inr True, e\<lparr>results := AList.update m v (results e)\<rparr>)"
  by (simp add: record_result_split_def Let_def)

text \<open>
  C10. \<^verbatim>\<open>record_result\<close> returns for every declared measurement, the case of a
  midpoint of zero being guarded. The split variant at the recipe that declares
  \<^verbatim>\<open>dT\<close> in [-1, 1] (a recipe its constructor accepts) and the value 0.5: the
  value is stored in the results, then the division raises \<^verbatim>\<open>ZeroDivisionError\<close>;
  no validation is stored and nothing is returned.
  \<^verbatim>\<open>ResultCalculator.evaluate_measurement\<close> raises on the same numbers.
\<close>

theorem record_result_split_zero_midpoint:
  "Recipe_split ''Drift'' ''drift'' [(''Acid'', 30)] [''read'']
     [(''dT'', Range_tuple (- 1) 1)] = Inr symmetric \<and>
   record_result_split drift_run ''dT'' (1 / 2) [] =
     (Inl ZeroDivisionError, drift_run\<lparr>results := [(''dT'', 1 / 2)]\<rparr>) \<and>
   evaluate_measurement (1 / 2) (- 1) 1 = Inl ZeroDivisionError"
  by (simp add: Recipe_split_def validators record_result_split_def evaluate_measurement_def scen)

section \<open>\<^verbatim>\<open>place_order\<close>\<close>

lemma place_order_mono_unknown_reagent:
  "map_of (lab_reagents lab) rn = None \<Longrightarrow>
   place_order_mono now lab rn q sn = (Inl (Reagent_not_found rn), lab)"
  by (simp add: place_order_mono_def)

lemma place_order_mono_unknown_supplier:
  "map_of (lab_reagents lab) rn = Some r \<Longrightarrow> map_of (lab_suppliers lab) sn = None \<Longrightarrow>
   place_order_mono now lab rn q sn = (Inl (Supplier_not_found sn), lab)"
  by (simp add: place_order_mono_def)

lemma place_order_mono_known:
  "map_of (lab_reagents lab) rn = Some r \<Longrightarrow> map_of (lab_suppliers lab) sn = Some sp \<Longrightarrow>
   \<exists>ord. place_order_mono now lab rn q sn =
           (Inr ord, lab\<lparr>lab_reagents := AList.update rn (r\<lparr>orders := orders r @ [ord]\<rparr>)
                                            (lab_reagents lab)\<rparr>) \<and>
         status ord = ''pendiente'' \<and>
         expected_delivery ord = Some (order_date ord + 7)"
  by (simp add: place_order_mono_def Let_def)

text \<open>
  In a manager of the split variant that starts empty and grows by \<^verbatim>\<open>place_order\<close>
  only, the identifiers are \<^verbatim>\<open>ORD-1\<close>, \<^verbatim>\<open>ORD-2\<close>, ... and so distinct.
\<close>

lemma place_orders_split_ids:
  "map order_id (order_history im) = map ORD_seq [1 ..< Suc (length (order_history im))] \<Longrightarrow>
   map order_id (order_history (place_orders_split im cs)) =
     map ORD_seq [1 ..< Suc (length (order_history (place_orders_split im cs)))]"
proof (induction cs arbitrary: im)
  case Nil
  then show ?case by simp
next
  case (Cons c cs)
  obtain now rn q sn where c: "c = (now, rn, q, sn)" by (cases c)
  let ?im1 = "snd (place_order_split now im rn q sn)"
  have "map order_id (order_history ?im1) = map ORD_seq [1 ..< Suc (length (order_history ?im1))]"
    using Cons.prems by (simp add: place_order_split_def Let_def)
  then show ?case using c Cons.IH by simp
qed

lemma place_orders_split_distinct:
  "distinct (map order_id (order_history (place_orders_split InventoryManager cs)))"
proof -
  have "map order_id (order_history (place_orders_split InventoryManager cs)) =
     map ORD_seq [1 ..< Suc (length (order_history (place_orders_split InventoryManager cs)))]"
    by (rule place_orders_split_ids) (simp add: InventoryManager_def)
  moreover have "distinct (map ORD_seq [1 ..< Suc n])" for n
    by (simp add: distinct_map inj_on_def)
  ultimately show ?thesis by simp
qed

text \<open>
  C9. \<^verbatim>\<open>place_order\<close> fails for an unknown reagent or supplier and records nothing;
  otherwise the new order has an identifier unique among all orders, the status pending
  and an expected delivery seven days after the order date. Two failing inputs. The
  split variant on an empty manager, with a reagent and a supplier it does not know:
  the order \<^verbatim>\<open>ORD-1\<close> is recorded, with no expected delivery. The monolithic script
  with two orders placed one microsecond apart, within the same second: both orders get
  the identifier of that second.
\<close>

theorem place_order_unchecked_and_colliding:
  "place_order_split noon_june_2024 InventoryManager ''Ghost'' 5 ''Nobody'' =
     (\<lparr>order_id = ORD_seq 1, reagent_name = ''Ghost'', quantity = 5, supplier_name = ''Nobody'',
       order_date = 739038, status = ''pending'', expected_delivery = None,
       received_date = None\<rparr>,
      InventoryManager\<lparr>order_history :=
        [\<lparr>order_id = ORD_seq 1, reagent_name = ''Ghost'', quantity = 5,
          supplier_name = ''Nobody'', order_date = 739038, status = ''pending'',
          expected_delivery = None, received_date = None\<rparr>]\<rparr>) \<and>
   map_of (reagents InventoryManager) ''Ghost'' = None \<and>
   map_of (suppliers InventoryManager) ''Nobody'' = None \<and>
   map (map order_id \<circ> orders \<circ> snd)
     (lab_reagents
        (snd (place_order_mono just_after_noon
               (snd (place_order_mono noon_june_2024 (lab_of acid) ''Acid'' 5 ''Sigma''))
               ''Acid'' 8 ''Sigma''))) =
     [[ORD_stamp 739038 43200, ORD_stamp 739038 43200]]"
  by (simp add: place_order_split_def place_order_mono_def Let_def scen)

section \<open>Snapshot round trip\<close>

lemma Reagent_split_nonpositive_inventory:
  "ivt \<le> 0 \<Longrightarrow> Reagent_split nm ds c cat ivt u thr ed loc si = Inl ValueError"
  unfolding Reagent_split_def validate_positive_number_def validate_string_def
  by (simp add: bind_err_def)

lemma Reagent_mono_nonpositive_inventory:
  "ivt \<le> 0 \<Longrightarrow> Reagent_mono nm ds c cat ivt u thr ed loc si = Inl ValueError"
  unfolding Reagent_mono_def validate_positive_number_def validate_string_def
  by (simp add: bind_err_def)

text \<open>
  In both variants \<^verbatim>\<open>from_dict\<close> goes through the constructor, which demands a
  positive inventory: the snapshot of a reagent whose inventory is zero (or, in the
  monolithic script, negative) cannot be loaded.
\<close>

lemma from_dict_split_nonpositive:
  "inventory r \<le> 0 \<Longrightarrow> from_dict_split (to_dict_split r) = Inl ValueError"
  by (simp add: from_dict_split_def to_dict_split_def Reagent_split_nonpositive_inventory
        bind_err_def)

lemma from_dict_mono_nonpositive:
  "inventory r \<le> 0 \<Longrightarrow> from_dict_mono (to_dict_mono r) = Inl ValueError"
  by (simp add: from_dict_mono_def to_dict_mono_def Reagent_mono_nonpositive_inventory
        bind_err_def)

text \<open>With a positive inventory (and the other fields as a constructor leaves them) the
  round trip gives the reagent back.\<close>

lemma from_dict_split_roundtrip:
  assumes "strip (name r) \<noteq> []" "strip (description r) \<noteq> []" "strip (category r) \<noteq> []"
    "strip (unit r) \<noteq> []" "location r \<noteq> []" "orders r = []"
    "0 < cost r" "0 < inventory r" "0 < min_threshold r"
  shows "from_dict_split (to_dict_split r) = Inr r"
  using assms
  by (simp add: from_dict_split_def to_dict_split_def Reagent_split_def validate_string_def
        validate_positive_number_def validate_date_format_def bind_err_def split: option.splits)

lemma from_dict_mono_roundtrip:
  assumes "strip (name r) = name r" "strip (description r) = description r"
    "strip (category r) = category r" "strip (unit r) = unit r" "strip (location r) = location r"
    "name r \<noteq> []" "description r \<noteq> []" "category r \<noteq> []" "unit r \<noteq> []" "location r \<noteq> []"
    "0 < cost r" "0 < inventory r" "0 < min_threshold r"
  shows "from_dict_mono (to_dict_mono r) = Inr r"
  using assms
  by (simp add: from_dict_mono_def to_dict_mono_def Reagent_mono_def validate_string_def
        validate_positive_number_def validate_date_format_def bind_err_def)

lemma ranges_roundtrip:
  "list_all (\<lambda>(k, v). is_tuple v) er \<Longrightarrow>
   map (\<lambda>(k, v). (k, list_to_tuple v)) (map (\<lambda>(k, v). (k, tuple_to_list v)) er) = er"
proof (induction er)
  case Nil
  then show ?case by simp
next
  case (Cons p er)
  obtain k v where p: "p = (k, v)" by (cases p)
  with Cons show ?case by (cases v) simp_all
qed

text \<open>The ranges of a recipe survive the change from tuple to list and back.\<close>

lemma recipe_from_dict_mono_roundtrip:
  assumes "strip (recipe_name rc) = recipe_name rc" "strip (objective rc) = objective rc"
    "recipe_name rc \<noteq> []" "objective rc \<noteq> []" "recipe_reagents rc \<noteq> []"
    "expected_results rc \<noteq> []" "list_all (\<lambda>(k, v). is_tuple v) (expected_results rc)"
  shows "recipe_from_dict_mono (recipe_to_dict_mono rc) = Inr rc"
proof -
  have "map (\<lambda>(k, v). (k, list_to_tuple v)) (rd_expected_results (recipe_to_dict_mono rc)) =
          expected_results rc"
    using assms(7) by (simp only: recipe_to_dict_mono_def recipe_dict.simps ranges_roundtrip)
  then show ?thesis
    using assms(1-6)
    by (simp add: recipe_from_dict_mono_def Recipe_mono_def validate_string_def bind_err_def)
       (simp add: recipe_to_dict_mono_def)
qed

text \<open>
  C5. Saving and reloading gives back every entity, in particular a reagent debited
  to exactly zero. \<^verbatim>\<open>Acid\<close> is constructed with 100 in stock and debited by 100, which
  \<^verbatim>\<open>update_inventory\<close> accepts; \<^verbatim>\<open>from_dict\<close> on the \<^verbatim>\<open>to_dict\<close> of the emptied
  reagent raises \<^verbatim>\<open>ValueError\<close>, in the split variant and in the monolithic script.
\<close>

theorem from_dict_rejects_emptied_reagent:
  "Reagent_split ''Acid'' ''acid'' 5 ''Acids'' 100 ''mL'' 20 None None [] = Inr acid \<and>
   update_inventory_split noon_june_2024 acid (- 100) ''used'' =
      (True, acid\<lparr>inventory := 0, usage_history := [usage_record (- 100) 0 ''used'']\<rparr>) \<and>
   from_dict_split
     (to_dict_split (acid\<lparr>inventory := 0, usage_history := [usage_record (- 100) 0 ''used'']\<rparr>)) =
     Inl ValueError \<and>
   from_dict_mono (to_dict_mono (update_inventory_mono noon_june_2024 acid (- 100) ''used'')) =
     Inl ValueError"
  by (simp add: Reagent_split_def Reagent_mono_def validators update_inventory_split_def
        update_inventory_mono_def from_dict_split_def from_dict_mono_def to_dict_split_def
        to_dict_mono_def scen almacen_general_def)

end
